theory Spec2Isabelle
  imports Main
begin

section \<open>Transmute: the batch conversion front end (src/src/App.tsx)\<close>

text \<open>
  The development embeds the logic of \<^verbatim>\<open>App.tsx\<close>: the file classifier
  \<^verbatim>\<open>getFileType\<close>, the handlers \<^verbatim>\<open>addFiles\<close>, \<^verbatim>\<open>reset\<close>, the drag-and-drop
  listener, \<^verbatim>\<open>handleConvert\<close> and \<^verbatim>\<open>handleDownload\<close>, and the dispatch of the user's
  events to them. Every property is stated of a handler run to completion, from an
  arbitrary state.

  JavaScript strings are modelled as \<open>string\<close> (lists of 8-bit characters), so
  \<^verbatim>\<open>toLowerCase\<close> is modelled on the ASCII letters. The external collaborators (the
  Tauri commands \<^verbatim>\<open>convert_file\<close> and \<^verbatim>\<open>save_file_locally\<close>, the dialogs and the clock)
  are functions on an abstract world \<open>'w\<close>; a rejected promise is \<open>Inl\<close>.
\<close>

subsection \<open>String helpers of the JavaScript runtime\<close>

text \<open>\<^verbatim>\<open>s.split(sep)\<close> for a separator that matches exactly one character: the result
  always has at least one element (\<^verbatim>\<open>''.split('.')\<close> is \<^verbatim>\<open>['']\<close>).\<close>

fun split_str :: "(char \<Rightarrow> bool) \<Rightarrow> string \<Rightarrow> string list" where
  "split_str sep [] = [[]]"
| "split_str sep (c # cs) =
     (if sep c then [] # split_str sep cs
      else (case split_str sep cs of
              [] \<Rightarrow> [[c]]
            | x # xs \<Rightarrow> (c # x) # xs))"

text \<open>\<^verbatim>\<open>arr.pop()\<close> read as a value: the last element, \<^verbatim>\<open>undefined\<close> on an empty array.\<close>

definition pop :: "'a list \<Rightarrow> 'a option" where
  "pop xs = (if xs = [] then None else Some (last xs))"

text \<open>\<^verbatim>\<open>toLowerCase\<close> on 8-bit characters: the letters A to Z are mapped, every other
  character is left alone. Names and formats are read as ASCII here; a character outside
  ASCII whose lower case is an ASCII letter (the Kelvin sign) is beyond this model.\<close>

definition lower_char :: "char \<Rightarrow> char" where
  "lower_char c =
     (let n = (of_char c :: nat) in if 65 \<le> n \<and> n \<le> 90 then char_of (n + 32) else c)"

definition toLowerCase :: "string \<Rightarrow> string" where
  "toLowerCase s = map lower_char s"

text \<open>JavaScript truthiness of an optional string: \<^verbatim>\<open>undefined\<close>, \<^verbatim>\<open>null\<close> and \<^verbatim>\<open>''\<close> are falsy.\<close>

definition truthy :: "string option \<Rightarrow> bool" where
  "truthy v = (case v of None \<Rightarrow> False | Some s \<Rightarrow> s \<noteq> [])"

text \<open>\<^verbatim>\<open>v || d\<close> on an optional string.\<close>

definition or_else :: "string option \<Rightarrow> string \<Rightarrow> string" where
  "or_else v d = (if truthy v then the v else d)"

subsection \<open>Types (App.tsx lines 32-40)\<close>

datatype FileType = Video | Image | Audio | Unknown

datatype FileStatus = Pending | Converting | Done | Error

datatype AppState = IDLE | SELECTION | PROCESSING | FINISHED

record FileInfo =
  path :: string
  name :: string
  ftype :: FileType
  status :: "FileStatus option"
  convertedPath :: "string option"

subsection \<open>The file classifier (App.tsx lines 16-22)\<close>

definition video_exts :: "string list" where
  "video_exts = [''mp4'', ''mov'', ''avi'', ''mkv'', ''webm'', ''ogv'', ''flv'', ''wmv'',
                 ''3gp'', ''mpg'', ''vob'', ''ts'', ''m2ts'']"

definition image_exts :: "string list" where
  "image_exts = [''png'', ''jpg'', ''jpeg'', ''webp'', ''gif'', ''avif'', ''bmp'', ''tiff'',
                 ''ico'', ''tga'', ''svg'']"

definition audio_exts :: "string list" where
  "audio_exts = [''mp3'', ''wav'', ''m4a'', ''ogg'', ''flac'', ''aac'', ''wma'', ''aiff'',
                 ''alac'', ''opus'']"

definition getFileType :: "string \<Rightarrow> FileType" where
  "getFileType nm =
     (let ext = map_option toLowerCase (pop (split_str (\<lambda>c. c = CHR ''.'') nm)) in
      if or_else ext '''' \<in> set video_exts then Video
      else if or_else ext '''' \<in> set image_exts then Image
      else if or_else ext '''' \<in> set audio_exts then Audio
      else Unknown)"

subsection \<open>Application state (App.tsx lines 102-108)\<close>

record App =
  state :: AppState
  files :: "FileInfo list"
  format :: string
  error :: "string option"
  progress :: nat

definition initial :: App where
  "initial = \<lparr>state = IDLE, files = [], format = ''MP4'', error = None, progress = 0\<rparr>"

subsection \<open>Adding files, reset, drag and drop (App.tsx lines 114-157)\<close>

text \<open>The tracked file built for one path (lines 116-119): the display name is the last
  segment of the path after splitting at \<^verbatim>\<open>/\<close> and \<^verbatim>\<open>\\<close>, or \<^verbatim>\<open>'Unknown File'\<close> when
  that segment is empty.\<close>

definition newFile :: "string \<Rightarrow> FileInfo" where
  "newFile p =
     (let nm = or_else (pop (split_str (\<lambda>c. c = CHR ''/'' \<or> c = CHR 0x5C) p)) ''Unknown File''
      in \<lparr>path = p, name = nm, ftype = getFileType nm, status = Some Pending,
          convertedPath = None\<rparr>)"

text \<open>\<^verbatim>\<open>addFiles\<close>: the updater passed to \<^verbatim>\<open>setFiles\<close> receives the latest batch as
  \<^verbatim>\<open>prev\<close>, so the handler is a function of the current state.\<close>

definition addFiles :: "string list \<Rightarrow> App \<Rightarrow> App" where
  "addFiles paths s =
     (if length paths = 0 then s
      else
        let newFiles = map newFile paths;
            prev = files s;
            combined = prev @ newFiles;
            fmt = (if length combined > 0 \<and> length prev = 0 then
                     (let firstType = ftype (combined ! 0) in
                      if firstType = Image then ''PNG''
                      else if firstType = Audio then ''MP3''
                      else ''MP4'')
                   else format s)
        in s\<lparr>files := combined, format := fmt, state := SELECTION\<rparr>)"

definition reset :: "App \<Rightarrow> App" where
  "reset s = s\<lparr>state := IDLE, files := [], error := None, progress := 0\<rparr>"

text \<open>The \<^verbatim>\<open>tauri://drag-drop\<close> listener (lines 152-155). The effect registers it
  again on every change of \<^verbatim>\<open>state\<close>, so the guard reads the current state.\<close>

definition dragDrop :: "string list \<Rightarrow> App \<Rightarrow> App" where
  "dragDrop paths s = (if state s = PROCESSING then s else addFiles paths s)"

subsection \<open>The format table (App.tsx lines 25-29)\<close>

fun FORMATS :: "FileType \<Rightarrow> string list option" where
  "FORMATS Video = Some [''MP4'', ''GIF'', ''MKV'', ''AVI'', ''MOV'', ''WEBM'', ''OGV'', ''FLV'',
                         ''WMV'', ''3GP'', ''MPG'', ''VOB'', ''TS'', ''M2TS'']"
| "FORMATS Image = Some [''PNG'', ''JPG'', ''WEBP'', ''AVIF'', ''BMP'', ''TIFF'', ''ICO'', ''TGA'',
                         ''SVG'']"
| "FORMATS Audio = Some [''MP3'', ''WAV'', ''M4A'', ''OGG'', ''FLAC'', ''AAC'', ''WMA'', ''AIFF'',
                         ''ALAC'', ''OPUS'']"
| "FORMATS Unknown = None"

subsection \<open>The outside world\<close>

text \<open>\<^verbatim>\<open>open(...)\<close> of the dialog plugin resolves to \<^verbatim>\<open>string | string[] | null\<close>.\<close>

datatype picked = Cancelled | One string | Many "string list"

text \<open>The collaborators, each a function of the world. \<open>Inl\<close> is a rejected promise.
  \<open>save_dialog defaultPath filterName ext\<close> resolves to a path or \<^verbatim>\<open>null\<close>;
  \<open>open_dialog directory\<close> is the picker, for files or for a directory; \<open>now\<close> is
  \<^verbatim>\<open>Date.now()\<close>.\<close>

record 'w Env =
  convert_file :: "string \<Rightarrow> string \<Rightarrow> 'w \<Rightarrow> (string + string) \<times> 'w"
  save_file_locally :: "string \<Rightarrow> string \<Rightarrow> 'w \<Rightarrow> (string + unit) \<times> 'w"
  save_dialog :: "string \<Rightarrow> string \<Rightarrow> string \<Rightarrow> 'w \<Rightarrow> (string + string option) \<times> 'w"
  open_dialog :: "bool \<Rightarrow> 'w \<Rightarrow> (string + picked) \<times> 'w"
  now :: "'w \<Rightarrow> int \<times> 'w"

text \<open>The trace of invocations the front end makes, in order.\<close>

datatype call =
    ConvertFile string string
  | SaveFileLocally string string
  | SaveDialog string
  | OpenDialog bool

text \<open>The running system: the React state, the world, the trace, and the pending
  \<^verbatim>\<open>setTimeout\<close> callbacks (delay in ms and the \<^verbatim>\<open>AppState\<close> the callback sets).\<close>

record 'w Sys =
  app :: App
  world :: 'w
  calls :: "call list"
  timeouts :: "(nat \<times> AppState) list"

definition init :: "'w \<Rightarrow> 'w Sys" where
  "init w = \<lparr>app = initial, world = w, calls = [], timeouts = []\<rparr>"

subsection \<open>The conversion run (App.tsx lines 159-209)\<close>

text \<open>The loop of lines 175-188 over the index \<open>i\<close>, updating the array in place. The
  inner \<^verbatim>\<open>try/catch\<close> is the case on the result of \<^verbatim>\<open>convert_file\<close>.\<close>

function convert_loop ::
  "'w Env \<Rightarrow> string \<Rightarrow> nat \<Rightarrow> FileInfo list \<times> 'w \<times> call list \<Rightarrow> FileInfo list \<times> 'w \<times> call list"
where
  "convert_loop env fmt i (fs, w, tr) =
     (if i < length fs then
        (let fs1 = fs[i := (fs ! i)\<lparr>status := Some Converting\<rparr>];
             rw = convert_file env (path (fs1 ! i)) fmt w;
             tr1 = tr @ [ConvertFile (path (fs1 ! i)) fmt]
         in case fst rw of
              Inr result \<Rightarrow>
                convert_loop env fmt (i + 1)
                  (fs1[i := (fs1 ! i)\<lparr>convertedPath := Some result, status := Some Done\<rparr>],
                   snd rw, tr1)
            | Inl e \<Rightarrow>
                convert_loop env fmt (i + 1)
                  (fs1[i := (fs1 ! i)\<lparr>status := Some Error\<rparr>], snd rw, tr1))
      else (fs, w, tr))"
  by pat_completeness auto
termination
  by (relation "measure (\<lambda>(env, fmt, i, fs, w, tr). length fs - i)") auto

text \<open>\<^verbatim>\<open>handleConvert\<close>. The interval of lines 171-173 only moves \<^verbatim>\<open>progress\<close> between
  the 0 set at line 164 and the 100 set at line 191 and is cleared at line 190; no
  statement of the outer \<^verbatim>\<open>try\<close> block outside the inner \<^verbatim>\<open>try\<close> can throw, so the
  outer \<^verbatim>\<open>catch\<close> has no branch here.\<close>

definition handleConvert :: "'w Env \<Rightarrow> 'w Sys \<Rightarrow> 'w Sys" where
  "handleConvert env sys =
     (let s = app sys in
      if length (files s) = 0 then sys
      else
        let s1 = s\<lparr>state := PROCESSING, error := None, progress := 0\<rparr>;
            t0 = now env (world sys);
            startTime = fst t0;
            updatedFiles = files s;
            res = convert_loop env (format s) 0 (updatedFiles, snd t0, calls sys);
            s2 = s1\<lparr>progress := 100, files := fst res\<rparr>;
            t1 = now env (fst (snd res));
            duration = fst t1 - startTime
        in if duration < 3000 then
             sys\<lparr>app := s2\<lparr>state := FINISHED\<rparr>, world := snd t1, calls := snd (snd res)\<rparr>
           else
             sys\<lparr>app := s2, world := snd t1, calls := snd (snd res),
                 timeouts := timeouts sys @ [(500, FINISHED)]\<rparr>)"

text \<open>The count shown by the FINISHED view (line 368).\<close>

definition ready_to_save :: "App \<Rightarrow> nat" where
  "ready_to_save s = length (filter (\<lambda>f. status f = Some Done) (files s))"

subsection \<open>Export (App.tsx lines 211-235)\<close>

text \<open>\<^verbatim>\<open>name.split('.')[0]\<close> inside a template literal: an absent element would print
  as \<^verbatim>\<open>undefined\<close>.\<close>

definition first_segment :: "string \<Rightarrow> string" where
  "first_segment nm =
     (case split_str (\<lambda>c. c = CHR ''.'') nm of
        [] \<Rightarrow> ''undefined''
      | x # _ \<Rightarrow> x)"

text \<open>The \<^verbatim>\<open>for ... of\<close> loop of lines 226-231. A rejected \<^verbatim>\<open>save_file_locally\<close> leaves
  the loop for the \<^verbatim>\<open>catch\<close> of line 233.\<close>

fun save_loop ::
  "'w Env \<Rightarrow> string \<Rightarrow> string \<Rightarrow> FileInfo list \<Rightarrow> 'w \<times> call list \<Rightarrow> (string + unit) \<times> 'w \<times> call list"
where
  "save_loop env selectedDir fmt [] (w, tr) = (Inr (), w, tr)"
| "save_loop env selectedDir fmt (file # rest) (w, tr) =
     (if truthy (convertedPath file) \<and> status file = Some Done then
        (let ext = toLowerCase fmt;
             dst = selectedDir @ ''/converted_'' @ first_segment (name file) @ ''.'' @ ext;
             rw = save_file_locally env (the (convertedPath file)) dst w;
             tr1 = tr @ [SaveFileLocally (the (convertedPath file)) dst]
         in case fst rw of
              Inl e \<Rightarrow> (Inl e, snd rw, tr1)
            | Inr u \<Rightarrow> save_loop env selectedDir fmt rest (snd rw, tr1))
      else save_loop env selectedDir fmt rest (w, tr))"

text \<open>The \<^verbatim>\<open>defaultPath\<close> handed to the save dialog (line 216), for the extension
  \<open>ext\<close> and the file \<open>f\<close>.\<close>

definition defaultPath :: "string \<Rightarrow> FileInfo \<Rightarrow> string" where
  "defaultPath ext f = ''converted_'' @ first_segment (name f) @ ''.'' @ ext @ '' ''"

definition handleDownload :: "'w Env \<Rightarrow> 'w Sys \<Rightarrow> 'w Sys" where
  "handleDownload env sys =
     (let s = app sys; fs = files s in
      if length fs = 1 \<and> truthy (convertedPath (fs ! 0)) then
        (let ext = toLowerCase (format s);
             rw = save_dialog env (defaultPath ext (fs ! 0)) (format s) ext (world sys);
             tr1 = calls sys @ [SaveDialog (defaultPath ext (fs ! 0))]
         in case fst rw of
              Inl e \<Rightarrow>
                sys\<lparr>app := s\<lparr>error := Some ''Failed to save file''\<rparr>, world := snd rw,
                    calls := tr1\<rparr>
            | Inr savePath \<Rightarrow>
                if truthy savePath then
                  (let rw2 = save_file_locally env (the (convertedPath (fs ! 0))) (the savePath)
                               (snd rw);
                       tr2 = tr1 @ [SaveFileLocally (the (convertedPath (fs ! 0))) (the savePath)]
                   in case fst rw2 of
                        Inl e \<Rightarrow>
                          sys\<lparr>app := s\<lparr>error := Some ''Failed to save file''\<rparr>,
                              world := snd rw2, calls := tr2\<rparr>
                      | Inr u \<Rightarrow> sys\<lparr>world := snd rw2, calls := tr2\<rparr>)
                else sys\<lparr>world := snd rw, calls := tr1\<rparr>)
      else if length fs > 1 then
        (let rw = open_dialog env True (world sys);
             tr1 = calls sys @ [OpenDialog True]
         in case fst rw of
              Inl e \<Rightarrow>
                sys\<lparr>app := s\<lparr>error := Some ''Failed to save files''\<rparr>, world := snd rw,
                    calls := tr1\<rparr>
            | Inr (One selectedDir) \<Rightarrow>
                if selectedDir \<noteq> [] then
                  (let res = save_loop env selectedDir (format s) fs (snd rw, tr1)
                   in case fst res of
                        Inl e \<Rightarrow>
                          sys\<lparr>app := s\<lparr>error := Some ''Failed to save files''\<rparr>,
                              world := fst (snd res), calls := snd (snd res)\<rparr>
                      | Inr u \<Rightarrow> sys\<lparr>world := fst (snd res), calls := snd (snd res)\<rparr>)
                else sys\<lparr>world := snd rw, calls := tr1\<rparr>
            | Inr other \<Rightarrow> sys\<lparr>world := snd rw, calls := tr1\<rparr>)
      else sys)"

subsection \<open>The file picker (App.tsx lines 135-141)\<close>

definition openFilePicker :: "'w Env \<Rightarrow> 'w Sys \<Rightarrow> 'w Sys" where
  "openFilePicker env sys =
     (let rw = open_dialog env False (world sys);
          sys1 = sys\<lparr>world := snd rw, calls := calls sys @ [OpenDialog False]\<rparr>
      in case fst rw of
           Inl err \<Rightarrow> sys1
         | Inr (Many selected) \<Rightarrow> sys1\<lparr>app := addFiles selected (app sys)\<rparr>
         | Inr (One selected) \<Rightarrow>
             if selected \<noteq> [] then sys1\<lparr>app := addFiles [selected] (app sys)\<rparr> else sys1
         | Inr Cancelled \<Rightarrow> sys1)"

subsection \<open>The session: events and their handlers (App.tsx lines 251-405)\<close>

datatype event =
    ClickUpload
  | DragDrop "string list"
  | SelectFormat string
  | ClickConvert
  | ClickReset
  | ClickDownload
  | TimeoutFires
  | DismissError

text \<open>The formats a dropdown can pass to \<^verbatim>\<open>setFormat\<close>: its options are one of the three
  lists of \<^verbatim>\<open>FORMATS\<close> (lines 306-310).\<close>

definition selectable :: "string list" where
  "selectable = the (FORMATS Video) @ the (FORMATS Image) @ the (FORMATS Audio)"

text \<open>The upload circle belongs to the IDLE view; the dropdown, Convert and Cancel to the
  SELECTION view; Download and Start New to the FINISHED view. A view that is being
  replaced stays mounted and clickable while its exit animation runs
  (\<^verbatim>\<open>AnimatePresence\<close>), and of all handlers only the drop listener looks at \<^verbatim>\<open>state\<close>:
  \<^verbatim>\<open>handleConvert\<close> guards on the empty batch alone, \<^verbatim>\<open>reset\<close> and the others on
  nothing. So every event is dispatched to its handler in every state. Each handler is
  run to completion before the next event; events that arrive while a run is suspended
  in \<^verbatim>\<open>convert_file\<close> are not described. The properties below are stated of the
  handlers, from arbitrary states; \<open>run\<close> builds the example sessions and fires pending
  timers.\<close>

fun step :: "'w Env \<Rightarrow> 'w Sys \<Rightarrow> event \<Rightarrow> 'w Sys" where
  "step env sys ClickUpload = openFilePicker env sys"
| "step env sys (DragDrop paths) = sys\<lparr>app := dragDrop paths (app sys)\<rparr>"
| "step env sys (SelectFormat fmt) =
     (if fmt \<in> set selectable then sys\<lparr>app := (app sys)\<lparr>format := fmt\<rparr>\<rparr> else sys)"
| "step env sys ClickConvert = handleConvert env sys"
| "step env sys ClickReset = sys\<lparr>app := reset (app sys)\<rparr>"
| "step env sys ClickDownload = handleDownload env sys"
| "step env sys TimeoutFires =
     (case timeouts sys of
        [] \<Rightarrow> sys
      | (delay, st) # rest \<Rightarrow> sys\<lparr>app := (app sys)\<lparr>state := st\<rparr>, timeouts := rest\<rparr>)"
| "step env sys DismissError = sys\<lparr>app := (app sys)\<lparr>error := None\<rparr>\<rparr>"

definition run :: "'w Env \<Rightarrow> 'w Sys \<Rightarrow> event list \<Rightarrow> 'w Sys" where
  "run env sys evs = foldl (step env) sys evs"

subsection \<open>What a run is measured against\<close>

text \<open>The answers \<^verbatim>\<open>convert_file\<close> gives when asked for the paths \<open>ps\<close> one after the
  other, and the world that is left.\<close>

fun outcomes :: "'w Env \<Rightarrow> string \<Rightarrow> string list \<Rightarrow> 'w \<Rightarrow> (string + string) list" where
  "outcomes env fmt [] w = []"
| "outcomes env fmt (p # ps) w =
     fst (convert_file env p fmt w) # outcomes env fmt ps (snd (convert_file env p fmt w))"

fun world_after :: "'w Env \<Rightarrow> string \<Rightarrow> string list \<Rightarrow> 'w \<Rightarrow> 'w" where
  "world_after env fmt [] w = w"
| "world_after env fmt (p # ps) w = world_after env fmt ps (snd (convert_file env p fmt w))"

text \<open>One file after its attempt: only \<^verbatim>\<open>status\<close> changes on a failure, \<^verbatim>\<open>status\<close>
  and \<^verbatim>\<open>convertedPath\<close> on a success.\<close>

definition settle :: "FileInfo \<Rightarrow> string + string \<Rightarrow> FileInfo" where
  "settle f r =
     (case r of
        Inr result \<Rightarrow> f\<lparr>convertedPath := Some result, status := Some Done\<rparr>
      | Inl e \<Rightarrow> f\<lparr>status := Some Error\<rparr>)"




subsection \<open>A concrete world for the examples\<close>

text \<open>The world counts the invocations it has seen. \<^verbatim>\<open>convert_file\<close> fails on every
  path whose file name starts with \<^verbatim>\<open>A\<close>; the save dialog answers with
  \<^verbatim>\<open>/out/chosen.mp4\<close>, the directory picker with \<^verbatim>\<open>/out\<close>, the file picker with nothing;
  the clock advances by one second with every invocation.\<close>

definition demo_env :: "nat Env" where
  "demo_env =
     \<lparr>convert_file = (\<lambda>p fmt n.
         (if take 1 (name (newFile p)) = ''A'' then Inl ''ffmpeg failed''
          else Inr (''/tmp/'' @ name (newFile p) @ ''.out''), n + 1)),
      save_file_locally = (\<lambda>src dst n. (Inr (), n + 1)),
      save_dialog = (\<lambda>defaultPath filterName ext n. (Inr (Some ''/out/chosen.mp4''), n + 1)),
      open_dialog = (\<lambda>directory n. (Inr (if directory then One ''/out'' else Cancelled), n + 1)),
      now = (\<lambda>n. (1000 * int n, n))\<rparr>"



text \<open>Three files are dropped on the idle application; then Convert is clicked.\<close>

definition abc_selected :: "nat Sys" where
  "abc_selected = run demo_env (init 0) [DragDrop [''/in/A.mov'', ''/in/B.mov'', ''/in/C.mov'']]"

definition abc_converted :: "nat Sys" where
  "abc_converted =
     run demo_env (init 0) [DragDrop [''/in/A.mov'', ''/in/B.mov'', ''/in/C.mov''], ClickConvert]"

text \<open>One file is dropped; then one file is dropped and its conversion fails.\<close>

definition one_selected :: "nat Sys" where
  "one_selected = run demo_env (init 0) [DragDrop [''/in/B.mov'']]"

definition one_failed :: "nat Sys" where
  "one_failed = run demo_env (init 0) [DragDrop [''/in/A.mov''], ClickConvert]"








subsection \<open>Predicates on runs\<close>

definition succeeded :: "string + string \<Rightarrow> bool" where
  "succeeded r = (case r of Inl e \<Rightarrow> False | Inr result \<Rightarrow> True)"


text \<open>What identifies a tracked file: the fields no handler changes.\<close>

definition ident :: "FileInfo \<Rightarrow> string \<times> string \<times> FileType" where
  "ident f = (path f, name f, ftype f)"

section \<open>The conversion loop\<close>

lemma convert_loop_from:
  "i \<le> length fs \<Longrightarrow>
   convert_loop env fmt i (fs, w, tr) =
     (take i fs @ map2 settle (drop i fs) (outcomes env fmt (map path (drop i fs)) w),
      world_after env fmt (map path (drop i fs)) w,
      tr @ map (\<lambda>f. ConvertFile (path f) fmt) (drop i fs))"
proof (induction env fmt i "(fs, w, tr)" arbitrary: fs w tr rule: convert_loop.induct)
  case (1 env fmt i fs w tr)
  show ?case
  proof (cases "i < length fs")
    case False
    with "1.prems" have "i = length fs" by simp
    then show ?thesis by simp
  next
    case True
    let ?p = "path (fs ! i)"
    let ?rw = "convert_file env ?p fmt w"
    let ?tr1 = "tr @ [ConvertFile ?p fmt]"
    have dr: "drop i fs = fs ! i # drop (Suc i) fs"
      using True by (simp add: Cons_nth_drop_Suc)
    show ?thesis
    proof (cases "fst ?rw")
      case (Inl e)
      let ?fs2 = "fs[i := (fs ! i)\<lparr>status := Some Error\<rparr>]"
      have unroll: "convert_loop env fmt i (fs, w, tr) =
            convert_loop env fmt (Suc i) (?fs2, snd ?rw, ?tr1)"
        using True Inl by (simp add: Let_def)
      have ih: "convert_loop env fmt (Suc i) (?fs2, snd ?rw, ?tr1) =
         (take (Suc i) ?fs2 @
            map2 settle (drop (Suc i) ?fs2)
              (outcomes env fmt (map path (drop (Suc i) ?fs2)) (snd ?rw)),
          world_after env fmt (map path (drop (Suc i) ?fs2)) (snd ?rw),
          ?tr1 @ map (\<lambda>f. ConvertFile (path f) fmt) (drop (Suc i) ?fs2))"
        using "1.hyps"(1)[OF True refl refl refl, of e] True Inl by simp
      have tk: "take (Suc i) ?fs2 = take i fs @ [settle (fs ! i) (fst ?rw)]"
        using True Inl by (simp add: take_Suc_conv_app_nth settle_def)
      show ?thesis
        unfolding unroll ih tk using True by (simp add: dr)
    next
      case (Inr result)
      let ?fs2 = "fs[i := (fs ! i)\<lparr>convertedPath := Some result, status := Some Done\<rparr>]"
      have unroll: "convert_loop env fmt i (fs, w, tr) =
            convert_loop env fmt (Suc i) (?fs2, snd ?rw, ?tr1)"
        using True Inr by (simp add: Let_def)
      have ih: "convert_loop env fmt (Suc i) (?fs2, snd ?rw, ?tr1) =
         (take (Suc i) ?fs2 @
            map2 settle (drop (Suc i) ?fs2)
              (outcomes env fmt (map path (drop (Suc i) ?fs2)) (snd ?rw)),
          world_after env fmt (map path (drop (Suc i) ?fs2)) (snd ?rw),
          ?tr1 @ map (\<lambda>f. ConvertFile (path f) fmt) (drop (Suc i) ?fs2))"
        using "1.hyps"(2)[OF True refl refl refl, of result] True Inr by simp
      have tk: "take (Suc i) ?fs2 = take i fs @ [settle (fs ! i) (fst ?rw)]"
        using True Inr by (simp add: take_Suc_conv_app_nth settle_def)
      show ?thesis
        unfolding unroll ih tk using True by (simp add: dr)
    qed
  qed
qed

declare convert_loop.simps [simp del]

lemma convert_loop_all:
  "convert_loop env fmt 0 (fs, w, tr) =
     (map2 settle fs (outcomes env fmt (map path fs) w),
      world_after env fmt (map path fs) w,
      tr @ map (\<lambda>f. ConvertFile (path f) fmt) fs)"
  using convert_loop_from [of 0 fs env fmt w tr] by simp

lemma length_outcomes [simp]: "length (outcomes env fmt ps w) = length ps"
  by (induction ps arbitrary: w) simp_all

lemma handleConvert_files:
  "files (app (handleConvert env sys)) =
     map2 settle (files (app sys))
       (outcomes env (format (app sys)) (map path (files (app sys))) (snd (now env (world sys))))"
  by (simp add: handleConvert_def Let_def convert_loop_all)

lemma handleConvert_calls:
  "calls (handleConvert env sys) =
     calls sys @ map (\<lambda>f. ConvertFile (path f) (format (app sys))) (files (app sys))"
  by (simp add: handleConvert_def Let_def convert_loop_all)

lemma settle_status: "status (settle f r) = Some Done \<or> status (settle f r) = Some Error"
  by (cases r) (simp_all add: settle_def)

lemma in_map2_settle:
  "g \<in> set (map2 settle fs rs) \<Longrightarrow> \<exists>f r. f \<in> set fs \<and> g = settle f r"
  by (auto dest: set_zip_leftD)

lemma ready_count_outcomes:
  "length rs = length fs \<Longrightarrow>
   length (filter (\<lambda>f. status f = Some Done) (map2 settle fs rs)) = length (filter succeeded rs)"
proof (induction fs arbitrary: rs)
  case Nil
  then show ?case by simp
next
  case (Cons f fs)
  then obtain r rs' where rs: "rs = r # rs'" by (cases rs) auto
  with Cons show ?case by (cases r) (simp_all add: settle_def succeeded_def)
qed

lemma settle_keeps [simp]:
  "path (settle f r) = path f" "name (settle f r) = name f" "ftype (settle f r) = ftype f"
  by (cases r; simp add: settle_def)+





lemma handleConvert_length [simp]:
  "length (files (app (handleConvert env sys))) = length (files (app sys))"
  unfolding handleConvert_files by simp

lemma ident_settle [simp]: "ident (settle f r) = ident f"
  by (simp add: ident_def)



section \<open>Handlers, one by one\<close>

lemma newFile_fields [simp]:
  "status (newFile p) = Some Pending" "convertedPath (newFile p) = None" "path (newFile p) = p"
  by (simp_all add: newFile_def Let_def)

lemma addFiles_files: "files (addFiles paths s) = files s @ map newFile paths"
  by (simp add: addFiles_def Let_def)





lemma fire_all:
  "timeouts sys = ts @ [(d, st)] \<Longrightarrow>
   state (app (run env sys (replicate (length (timeouts sys)) TimeoutFires))) = st
   \<and> timeouts (run env sys (replicate (length (timeouts sys)) TimeoutFires)) = []"
proof (induction ts arbitrary: sys)
  case Nil
  then show ?case by (simp add: run_def)
next
  case (Cons t ts)
  obtain d' st' where t: "t = (d', st')" by (cases t)
  let ?sys' = "step env sys TimeoutFires"
  have t': "timeouts ?sys' = ts @ [(d, st)]" using Cons.prems t by simp
  from Cons.IH [OF t'] have
    "state (app (run env ?sys' (replicate (length (timeouts ?sys')) TimeoutFires))) = st
     \<and> timeouts (run env ?sys' (replicate (length (timeouts ?sys')) TimeoutFires)) = []" .
  moreover have "run env sys (replicate (length (timeouts sys)) TimeoutFires) =
        run env ?sys' (replicate (length (timeouts ?sys')) TimeoutFires)"
    using Cons.prems t' by (simp add: run_def)
  ultimately show ?case by simp
qed

section \<open>Export\<close>













section \<open>The claims\<close>

text \<open>
  C1. For every non-empty batch, after the conversion run every tracked file has status
  done or error (none is left pending or converting), and the count the FINISHED view
  shows as ready to save is the number of files with status done; it is also the number
  of files the engine converted successfully.
\<close>

theorem run_settles_every_file:
  assumes "files (app sys) \<noteq> []"
  shows "(\<forall>f \<in> set (files (app (handleConvert env sys))).
            status f = Some Done \<or> status f = Some Error)
         \<and> ready_to_save (app (handleConvert env sys)) =
             card {i. i < length (files (app (handleConvert env sys))) \<and>
                      status (files (app (handleConvert env sys)) ! i) = Some Done}
         \<and> ready_to_save (app (handleConvert env sys)) =
             length (filter succeeded
               (outcomes env (format (app sys)) (map path (files (app sys)))
                  (snd (now env (world sys)))))"
proof (intro conjI ballI)
  fix f assume "f \<in> set (files (app (handleConvert env sys)))"
  then obtain g r where "f = settle g r"
    unfolding handleConvert_files by (auto dest: in_map2_settle)
  then show "status f = Some Done \<or> status f = Some Error"
    by (simp add: settle_status)
next
  show "ready_to_save (app (handleConvert env sys)) =
          card {i. i < length (files (app (handleConvert env sys))) \<and>
                   status (files (app (handleConvert env sys)) ! i) = Some Done}"
    unfolding ready_to_save_def by (rule length_filter_conv_card)
next
  show "ready_to_save (app (handleConvert env sys)) =
          length (filter succeeded
            (outcomes env (format (app sys)) (map path (files (app sys)))
               (snd (now env (world sys)))))"
    unfolding ready_to_save_def handleConvert_files by (rule ready_count_outcomes) simp
qed

theorem run_settles_every_file_witness:
  "files (app abc_selected) \<noteq> []
   \<and> map status (files (app (handleConvert demo_env abc_selected))) =
       [Some Error, Some Done, Some Done]
   \<and> ready_to_save (app (handleConvert demo_env abc_selected)) = 2"
proof -
  have ne: "files (app abc_selected) \<noteq> []" by code_simp
  have st: "map status (files (app (handleConvert demo_env abc_selected))) =
              [Some Error, Some Done, Some Done]" by code_simp
  have two: "length (filter succeeded
               (outcomes demo_env (format (app abc_selected)) (map path (files (app abc_selected)))
                  (snd (now demo_env (world abc_selected))))) = 2" by code_simp
  from run_settles_every_file [OF ne, of demo_env] ne st two show ?thesis by simp
qed

text \<open>
  C2. An engine failure on one file is caught at that file: the file only gets status
  error (\<open>settle\<close> changes nothing else), and every file of the batch is still attempted,
  once each, one after the other in batch order, whatever the earlier outcomes were. The
  example batch A (fails), B, C ends as error, done, done.
\<close>

theorem run_attempts_every_file:
  "files (app (handleConvert env sys)) =
     map2 settle (files (app sys))
       (outcomes env (format (app sys)) (map path (files (app sys))) (snd (now env (world sys))))
   \<and> calls (handleConvert env sys) =
       calls sys @ map (\<lambda>f. ConvertFile (path f) (format (app sys))) (files (app sys))"
  by (simp add: handleConvert_files handleConvert_calls)

theorem run_attempts_every_file_witness:
  "map status (files (app (handleConvert demo_env abc_selected))) =
     [Some Error, Some Done, Some Done]
   \<and> calls (handleConvert demo_env abc_selected) =
       [ConvertFile ''/in/A.mov'' ''MP4'', ConvertFile ''/in/B.mov'' ''MP4'',
        ConvertFile ''/in/C.mov'' ''MP4'']"
proof -
  have a: "map status (map2 settle (files (app abc_selected))
             (outcomes demo_env (format (app abc_selected)) (map path (files (app abc_selected)))
                (snd (now demo_env (world abc_selected))))) = [Some Error, Some Done, Some Done]"
    by code_simp
  have b: "calls abc_selected @
             map (\<lambda>f. ConvertFile (path f) (format (app abc_selected))) (files (app abc_selected)) =
           [ConvertFile ''/in/A.mov'' ''MP4'', ConvertFile ''/in/B.mov'' ''MP4'',
            ConvertFile ''/in/C.mov'' ''MP4'']"
    by code_simp
  from run_attempts_every_file [of demo_env abc_selected] a b show ?thesis by simp
qed

text \<open>
  C5. The classifier on a file name without any dot: \<^verbatim>\<open>split('.').pop()\<close> then returns
  the whole name, so the name \<^verbatim>\<open>mp4\<close>, which has no extension, is classified as video
  and not as unknown.
\<close>

theorem getFileType_dotless_name:
  "CHR ''.'' \<notin> set ''mp4'' \<and> getFileType ''mp4'' = Video"
  by code_simp

text \<open>
  C6. Paths dropped while the session is in PROCESSING change nothing: the batch, the
  statuses, the selected format and the state (and everything else) stay as they are.
\<close>

theorem drop_while_processing_ignored:
  "state (app sys) = PROCESSING \<Longrightarrow> step env sys (DragDrop paths) = sys"
  by (simp add: dragDrop_def)

theorem drop_while_processing_ignored_witness:
  "state (app abc_converted) = PROCESSING
   \<and> step demo_env abc_converted (DragDrop [''/in/D.mov'']) = abc_converted"
proof -
  have p: "state (app abc_converted) = PROCESSING" by code_simp
  from drop_while_processing_ignored [OF p] p show ?thesis by simp
qed

text \<open>
  C10. When the batch holds exactly one file and that file has no result path, export
  does nothing at all: no dialog, no copy, no error; the system is unchanged.
\<close>

theorem single_file_without_result_no_export:
  assumes "length (files (app sys)) = 1" and "convertedPath (files (app sys) ! 0) = None"
  shows "handleDownload env sys = sys"
  using assms by (simp add: handleDownload_def Let_def truthy_def)

theorem single_file_without_result_no_export_witness:
  "length (files (app one_failed)) = 1
   \<and> convertedPath (files (app one_failed) ! 0) = None
   \<and> status (files (app one_failed) ! 0) = Some Error
   \<and> state (app one_failed) = FINISHED
   \<and> step demo_env one_failed ClickDownload = one_failed"
proof -
  have l: "length (files (app one_failed)) = 1" by code_simp
  have c: "convertedPath (files (app one_failed) ! 0) = None" by code_simp
  have s: "status (files (app one_failed) ! 0) = Some Error" by code_simp
  have f: "state (app one_failed) = FINISHED" by code_simp
  from single_file_without_result_no_export [OF l c, of demo_env] l c s f
  show ?thesis by simp
qed

text \<open>
  C4. When files are added to an empty batch, the first file of the batch is the first
  file added and the format is chosen from its category: PNG for an image, MP3 for audio,
  MP4 for video and for unknown. When the batch is not empty, adding files leaves the
  selected format as it is.
\<close>

theorem auto_format_on_first_files:
  "(files s = [] \<and> paths \<noteq> [] \<longrightarrow>
      hd (files (addFiles paths s)) = newFile (hd paths)
      \<and> format (addFiles paths s) =
          (case ftype (hd (files (addFiles paths s))) of
             Image \<Rightarrow> ''PNG'' | Audio \<Rightarrow> ''MP3'' | Video \<Rightarrow> ''MP4'' | Unknown \<Rightarrow> ''MP4''))
   \<and> (files s \<noteq> [] \<longrightarrow> format (addFiles paths s) = format s)"
proof (intro conjI impI)
  assume a: "files s = [] \<and> paths \<noteq> []"
  then obtain p ps where ps: "paths = p # ps" by (cases paths) auto
  show "hd (files (addFiles paths s)) = newFile (hd paths)"
    using a ps by (simp add: addFiles_def Let_def)
  show "format (addFiles paths s) =
          (case ftype (hd (files (addFiles paths s))) of
             Image \<Rightarrow> ''PNG'' | Audio \<Rightarrow> ''MP3'' | Video \<Rightarrow> ''MP4'' | Unknown \<Rightarrow> ''MP4'')"
    using a ps by (cases "ftype (newFile p)") (simp_all add: addFiles_def Let_def)
next
  assume "files s \<noteq> []"
  then show "format (addFiles paths s) = format s"
    by (simp add: addFiles_def Let_def)
qed

theorem auto_format_on_first_files_witness:
  "format (addFiles [''/m/song.MP3'', ''/v/a.mkv''] initial) = ''MP3''
   \<and> format (addFiles [''/p/x.png''] initial) = ''PNG''
   \<and> format (addFiles [''/v/a.mkv''] initial) = ''MP4''
   \<and> format (addFiles [''/d/notes.txt''] initial) = ''MP4''
   \<and> files (addFiles [''/m/song.MP3''] initial) \<noteq> []
   \<and> format (addFiles [''/p/x.png''] (addFiles [''/m/song.MP3''] initial)) = ''MP3''"
proof -
  have e: "files initial = []" by (simp add: initial_def)
  have t1: "ftype (newFile ''/m/song.MP3'') = Audio" by code_simp
  have t2: "ftype (newFile ''/p/x.png'') = Image" by code_simp
  have t3: "ftype (newFile ''/v/a.mkv'') = Video" by code_simp
  have t4: "ftype (newFile ''/d/notes.txt'') = Unknown" by code_simp
  have ne: "files (addFiles [''/m/song.MP3''] initial) \<noteq> []" by (simp add: addFiles_files)
  have m: "format (addFiles [''/m/song.MP3''] initial) = ''MP3''"
    using auto_format_on_first_files [of initial "[''/m/song.MP3'']"] e t1 by simp
  have "format (addFiles [''/m/song.MP3'', ''/v/a.mkv''] initial) = ''MP3''"
    using auto_format_on_first_files [of initial "[''/m/song.MP3'', ''/v/a.mkv'']"] e t1 by simp
  moreover have "format (addFiles [''/p/x.png''] initial) = ''PNG''"
    using auto_format_on_first_files [of initial "[''/p/x.png'']"] e t2 by simp
  moreover have "format (addFiles [''/v/a.mkv''] initial) = ''MP4''"
    using auto_format_on_first_files [of initial "[''/v/a.mkv'']"] e t3 by simp
  moreover have "format (addFiles [''/d/notes.txt''] initial) = ''MP4''"
    using auto_format_on_first_files [of initial "[''/d/notes.txt'']"] e t4 by simp
  moreover have "format (addFiles [''/p/x.png''] (addFiles [''/m/song.MP3''] initial)) = ''MP3''"
    using auto_format_on_first_files [of "addFiles [''/m/song.MP3''] initial" "[''/p/x.png'']"] ne m
    by simp
  ultimately show ?thesis using ne by simp
qed

text \<open>
  C8. Every conversion run sets FINISHED exactly once. When the elapsed time between the
  two clock readings is below 3000 ms, the run sets the state to FINISHED at once and
  adds no timer. Otherwise it leaves the state at PROCESSING and adds exactly one timer
  of 500 ms whose callback sets FINISHED: once the pending timers have fired, the state
  is FINISHED, no timer is left and the batch is as the run left it.
\<close>

theorem finish_pacing:
  assumes ne: "files (app sys) \<noteq> []"
  shows "let t0 = now env (world sys);
             w2 = world_after env (format (app sys)) (map path (files (app sys))) (snd t0);
             duration = fst (now env w2) - fst t0;
             sys' = handleConvert env sys;
             fired = run env sys' (replicate (length (timeouts sys')) TimeoutFires)
         in (duration < 3000 \<longrightarrow> state (app sys') = FINISHED \<and> timeouts sys' = timeouts sys)
          \<and> (\<not> duration < 3000 \<longrightarrow>
                state (app sys') = PROCESSING
              \<and> timeouts sys' = timeouts sys @ [(500, FINISHED)]
              \<and> state (app fired) = FINISHED \<and> timeouts fired = []
              \<and> files (app fired) = files (app sys'))"
proof -
  let ?sys' = "handleConvert env sys"
  let ?fired = "run env ?sys' (replicate (length (timeouts ?sys')) TimeoutFires)"
  have fires_keep: "files (app (run env s (replicate n TimeoutFires))) = files (app s)" for s :: "'a Sys" and n
    unfolding run_def by (induction n arbitrary: s) (simp_all split: list.splits)
  have later: "timeouts ?sys' = timeouts sys @ [(500, FINISHED)] \<Longrightarrow>
      state (app ?fired) = FINISHED \<and> timeouts ?fired = []"
    by (rule fire_all)
  have pace: "(fst (now env (world_after env (format (app sys)) (map path (files (app sys)))
                 (snd (now env (world sys))))) - fst (now env (world sys)) < 3000 \<longrightarrow>
               state (app ?sys') = FINISHED \<and> timeouts ?sys' = timeouts sys)
           \<and> (\<not> fst (now env (world_after env (format (app sys)) (map path (files (app sys)))
                 (snd (now env (world sys))))) - fst (now env (world sys)) < 3000 \<longrightarrow>
               state (app ?sys') = PROCESSING
               \<and> timeouts ?sys' = timeouts sys @ [(500, FINISHED)])"
    using ne by (simp add: handleConvert_def Let_def convert_loop_all)
  show ?thesis
    unfolding Let_def using pace later fires_keep by metis
qed

theorem finish_pacing_witness:
  "files (app one_selected) \<noteq> []
   \<and> state (app (handleConvert demo_env one_selected)) = FINISHED
   \<and> timeouts (handleConvert demo_env one_selected) = []
   \<and> files (app abc_selected) \<noteq> []
   \<and> state (app (handleConvert demo_env abc_selected)) = PROCESSING
   \<and> timeouts (handleConvert demo_env abc_selected) = [(500, FINISHED)]
   \<and> state (app (run demo_env (handleConvert demo_env abc_selected) [TimeoutFires])) = FINISHED
   \<and> timeouts (run demo_env (handleConvert demo_env abc_selected) [TimeoutFires]) = []"
proof -
  have n1: "files (app one_selected) \<noteq> []" by code_simp
  have t1: "timeouts one_selected = []" by code_simp
  have d1: "fst (now demo_env (world_after demo_env (format (app one_selected))
                   (map path (files (app one_selected))) (snd (now demo_env (world one_selected)))))
            - fst (now demo_env (world one_selected)) = 1000" by code_simp
  have n3: "files (app abc_selected) \<noteq> []" by code_simp
  have t3: "timeouts abc_selected = []" by code_simp
  have d3: "fst (now demo_env (world_after demo_env (format (app abc_selected))
                   (map path (files (app abc_selected))) (snd (now demo_env (world abc_selected)))))
            - fst (now demo_env (world abc_selected)) = 3000" by code_simp
  have one: "state (app (handleConvert demo_env one_selected)) = FINISHED
             \<and> timeouts (handleConvert demo_env one_selected) = []"
    using finish_pacing [OF n1, of demo_env] unfolding Let_def d1 by (simp add: t1)
  have three0: "state (app (handleConvert demo_env abc_selected)) = PROCESSING
     \<and> timeouts (handleConvert demo_env abc_selected) = [(500, FINISHED)]"
    using finish_pacing [OF n3, of demo_env] unfolding Let_def d3 by (simp add: t3)
  then have len: "replicate (length (timeouts (handleConvert demo_env abc_selected))) TimeoutFires
      = [TimeoutFires]" by simp
  have three: "state (app (run demo_env (handleConvert demo_env abc_selected) [TimeoutFires])) = FINISHED
     \<and> timeouts (run demo_env (handleConvert demo_env abc_selected) [TimeoutFires]) = []"
    using finish_pacing [OF n3, of demo_env] unfolding Let_def d3 len by simp
  from n1 n3 one three0 three show ?thesis by simp
qed










end
